theory Spec2Isabelle
  imports Complex_Main
begin

section \<open>Python and numpy primitives\<close>

text \<open>
  The engine is Python over numpy arrays of floats. Arrays are lists, floats are exact
  reals, and every exception the code can raise is a value of \<open>error\<close>. All errors
  the engine raises itself are Python \<open>ValueError\<close>s told apart by their message; the
  constructors below are named after the message (or after the library exception).
\<close>

datatype error =
    Unknown_signal_type
  | Invalid_custom_function
  | Unknown_system_type
  | Invalid_system_coefficients
  | Number_of_samples_negative
  | Argmin_of_empty_sequence
  | Index_out_of_bounds
  | Invalid_number_of_data_points
  | Zero_division
  | Library_failure

text \<open>Python's \<open>int(x)\<close> on a float truncates towards zero.\<close>

definition py_int :: "real \<Rightarrow> int" where
  "py_int x = (if 0 \<le> x then \<lfloor>x\<rfloor> else \<lceil>x\<rceil>)"

text \<open>
  \<open>np.linspace(start, stop, num, endpoint)\<close>: a negative \<open>num\<close> raises; otherwise
  sample \<open>i\<close> is \<open>start + i * (stop - start) / divisor\<close> with \<open>divisor = num - 1\<close> when the
  endpoint is included and \<open>divisor = num\<close> when it is not.
\<close>

definition linspace :: "real \<Rightarrow> real \<Rightarrow> int \<Rightarrow> bool \<Rightarrow> error + real list" where
  "linspace start stop num endpoint =
     (if num < 0 then Inl Number_of_samples_negative
      else let divisor = (if endpoint then num - 1 else num) in
        Inr (map (\<lambda>i. start + real i * (stop - start) / real_of_int divisor) [0..<nat num]))"

text \<open>\<open>np.trim_zeros(xs, 'f')\<close> drops the leading entries that are exactly zero.\<close>

definition trim_zeros_f :: "real list \<Rightarrow> real list" where
  "trim_zeros_f xs = dropWhile (\<lambda>x. x = 0) xs"

text \<open>\<open>np.clip(x, lo, hi)\<close>.\<close>

definition clip :: "real \<Rightarrow> real \<Rightarrow> real \<Rightarrow> real" where
  "clip x lo hi = min (max x lo) hi"

section \<open>SystemAnalyzer.create\_system\<close>

text \<open>
  The keyword arguments of \<open>create_system\<close>. Numeric keywords are a dictionary from
  names to floats. The two text keywords of a custom system (\<open>numerator\<close>,
  \<open>denominator\<close>) are handed to Python's \<open>eval\<close> and \<open>np.array\<close>; the model stores
  for each text the outcome of that evaluation: \<open>None\<close> when it raises, \<open>Some xs\<close> for
  the one-dimensional array it yields (the text \<open>[0, 1]\<close> is \<open>Some [0, 1]\<close>).
\<close>

record sys_kwargs =
  num_kw :: "string \<rightharpoonup> real"
  text_kw :: "string \<rightharpoonup> real list option"

definition get_num :: "(string \<rightharpoonup> real) \<Rightarrow> string \<Rightarrow> real \<Rightarrow> real" where
  "get_num kw k d = (case kw k of None \<Rightarrow> d | Some v \<Rightarrow> v)"

definition get_text :: "(string \<rightharpoonup> real list option) \<Rightarrow> string \<Rightarrow> real list option \<Rightarrow> real list option" where
  "get_text kw k d = (case kw k of None \<Rightarrow> d | Some v \<Rightarrow> v)"

text \<open>
  \<open>scipy.signal.butter(order, Wn, btype)\<close> is a library routine; the model takes it as
  a parameter of this type (order, critical frequencies, band type).
\<close>

type_synonym butter_fn = "int \<Rightarrow> real list \<Rightarrow> string \<Rightarrow> error + (real list \<times> real list)"

text \<open>
  The band of the band-pass branch (lines 54 to 61 of \<open>system_analyzer.py\<close>): the
  critical frequencies \<open>[low, high]\<close> handed to the design routine.
\<close>

definition bandpass_Wn :: "real \<Rightarrow> real \<Rightarrow> real \<Rightarrow> real list" where
  "bandpass_Wn fs lowcut0 highcut0 =
     (let nyquist = fs / 2;
          lowcut1 = max lowcut0 0.1;
          highcut1 = min highcut0 (nyquist * 0.99);
          (lowcut, highcut) = (if lowcut1 \<ge> highcut1 then (5, 15) else (lowcut1, highcut1));
          low = lowcut / nyquist;
          high = highcut / nyquist
      in [low, high])"

definition create_system ::
  "butter_fn \<Rightarrow> real \<Rightarrow> string \<Rightarrow> sys_kwargs \<Rightarrow> error + (real list \<times> real list)" where
  "create_system butter fs system_type kwargs =
     (if system_type = ''Low-pass Filter'' then
        (let cutoff0 = get_num (num_kw kwargs) ''cutoff'' 10;
             order = py_int (get_num (num_kw kwargs) ''order'' 4);
             nyquist = fs / 2;
             cutoff = (if cutoff0 \<ge> nyquist then nyquist * 0.99 else cutoff0);
             normalized_cutoff = cutoff / nyquist
         in butter order [normalized_cutoff] ''low'')
      else if system_type = ''High-pass Filter'' then
        (let cutoff0 = get_num (num_kw kwargs) ''cutoff'' 10;
             order = py_int (get_num (num_kw kwargs) ''order'' 4);
             nyquist = fs / 2;
             cutoff1 = (if cutoff0 \<le> 0 then 1 else cutoff0);
             cutoff = (if cutoff1 \<ge> nyquist then nyquist * 0.99 else cutoff1);
             normalized_cutoff = cutoff / nyquist
         in butter order [normalized_cutoff] ''high'')
      else if system_type = ''Band-pass Filter'' then
        (let lowcut = get_num (num_kw kwargs) ''lowcut'' 5;
             highcut = get_num (num_kw kwargs) ''highcut'' 15;
             order = py_int (get_num (num_kw kwargs) ''order'' 4)
         in butter order (bandpass_Wn fs lowcut highcut) ''band'')
      else if system_type = ''Moving Average'' then
        (let window_size0 = py_int (get_num (num_kw kwargs) ''window_size'' 5);
             window_size = (if window_size0 < 1 then 1 else window_size0);
             b = map (\<lambda>one. one / real_of_int window_size) (replicate (nat window_size) 1);
             a = [1]
         in Inr (b, a))
      else if system_type = ''Differentiator'' then
        (let alpha = clip (get_num (num_kw kwargs) ''alpha'' 0.95) 0 0.999
         in Inr ([1, -1], [1, - alpha]))
      else if system_type = ''Integrator'' then
        (let beta = clip (get_num (num_kw kwargs) ''beta'' 0.99) 0 0.9999
         in Inr ([1], [1, - beta]))
      else if system_type = ''Custom System'' then
        (case get_text (text_kw kwargs) ''numerator'' (Some [1]) of
           None \<Rightarrow> Inl Invalid_system_coefficients
         | Some b0 \<Rightarrow>
        (case get_text (text_kw kwargs) ''denominator'' (Some [1]) of
           None \<Rightarrow> Inl Invalid_system_coefficients
         | Some a0 \<Rightarrow>
             if b0 = [] \<or> a0 = [] then Inl Invalid_system_coefficients
             else
               let b_trimmed = trim_zeros_f b0;
                   a_trimmed = trim_zeros_f a0;
                   b = (if b_trimmed \<noteq> [] then b_trimmed else [0]);
                   a = (if a_trimmed \<noteq> [] then a_trimmed else [1])
               in if \<bar>hd a\<bar> < 1 / 10 ^ 12 then Inl Invalid_system_coefficients
                  else Inr (b, a)))
      else Inl Unknown_system_type)"

text \<open>A custom-system request with the given evaluated numerator and denominator texts.\<close>

definition custom_kwargs :: "real list option \<Rightarrow> real list option \<Rightarrow> sys_kwargs" where
  "custom_kwargs num den =
     \<lparr>num_kw = Map.empty, text_kw = [''numerator'' \<mapsto> num, ''denominator'' \<mapsto> den]\<rparr>"

text \<open>A design routine that answers nothing: the custom branch never calls one.\<close>

definition no_butter :: butter_fn where
  "no_butter order Wn btype = Inl Library_failure"

section \<open>SignalGenerator\<close>

text \<open>
  The generator's state: \<open>self.fs\<close>, \<open>self.duration\<close> and the time vector
  \<open>self.t = np.linspace(0, duration, int(fs * duration), endpoint=False)\<close>.
\<close>

record signal_generator =
  self_fs :: real
  self_duration :: real
  self_t :: "real list"

definition SignalGenerator_init :: "real \<Rightarrow> real \<Rightarrow> error + signal_generator" where
  "SignalGenerator_init fs duration =
     (case linspace 0 duration (py_int (fs * duration)) False of
        Inl e \<Rightarrow> Inl e
      | Inr ts \<Rightarrow> Inr \<lparr>self_fs = fs, self_duration = duration, self_t = ts\<rparr>)"

text \<open>
  The keyword arguments of \<open>generate\<close>: the numeric ones by name, and the text of a
  custom function. The text is handed to Python's \<open>eval\<close> with the time vector bound
  to \<open>t\<close>; the model stores what that evaluation computes from the time vector:
  \<open>None\<close> when it raises, \<open>Some ys\<close> for the array it yields.
\<close>

record gen_kwargs =
  num_arg :: "string \<rightharpoonup> real"
  function_arg :: "(real list \<Rightarrow> real list option) option"

text \<open>
  Modelled from the spec: \<open>scipy.signal.square\<close> and \<open>scipy.signal.sawtooth\<close> are
  library routines. By section 4.1 the square wave is a periodic plus or minus one
  waveform, positive for the fraction \<open>duty\<close> of each period of \<open>2 * pi\<close>; the
  sawtooth rises linearly from -1 to 1 over the fraction \<open>width\<close> of the period and
  falls back linearly over the rest. (The library yields NaN for a duty or width
  outside \<open>[0, 1]\<close>; reals have no NaN, and no statement below depends on the value
  of a waveform.)
\<close>

definition mod_2pi :: "real \<Rightarrow> real" where
  "mod_2pi x = x - 2 * pi * of_int \<lfloor>x / (2 * pi)\<rfloor>"

definition square :: "real \<Rightarrow> real \<Rightarrow> real" where
  "square x duty = (if mod_2pi x < duty * 2 * pi then 1 else - 1)"

definition sawtooth :: "real \<Rightarrow> real \<Rightarrow> real" where
  "sawtooth x width =
     (if mod_2pi x < width * 2 * pi then mod_2pi x / (pi * width) - 1
      else (pi * (width + 1) - mod_2pi x) / (pi * (1 - width)))"

text \<open>
  \<open>np.argmin\<close>: the first index of the least entry; an empty array raises
  \<open>ValueError\<close> (attempt to get argmin of an empty sequence). The scan keeps the
  index and value of the least entry seen so far.
\<close>

fun argmin_scan :: "real list \<Rightarrow> nat \<Rightarrow> nat \<Rightarrow> real \<Rightarrow> nat" where
  "argmin_scan [] i best v = best"
| "argmin_scan (x # xs) i best v =
     (if x < v then argmin_scan xs (Suc i) i x else argmin_scan xs (Suc i) best v)"

definition argmin :: "real list \<Rightarrow> error + nat" where
  "argmin xs = (case xs of [] \<Rightarrow> Inl Argmin_of_empty_sequence
                | x # rest \<Rightarrow> Inr (argmin_scan rest 1 0 x))"

definition default_function :: "real list \<Rightarrow> real list option" where
  "default_function ts = Some (map (\<lambda>\<tau>. sin (2 * pi * \<tau>)) ts)"

definition generate ::
  "signal_generator \<Rightarrow> string \<Rightarrow> gen_kwargs \<Rightarrow> error + (real list \<times> real list)" where
  "generate self signal_type kwargs =
     (let amplitude = get_num (num_arg kwargs) ''amplitude'' 1;
          frequency = get_num (num_arg kwargs) ''frequency'' 1;
          phase = get_num (num_arg kwargs) ''phase'' 0;
          dc_offset = get_num (num_arg kwargs) ''dc_offset'' 0;
          ts = self_t self
      in
      if signal_type = ''Sine Wave'' then
        Inr (ts, map (\<lambda>\<tau>. amplitude * sin (2 * pi * frequency * \<tau> + phase) + dc_offset) ts)
      else if signal_type = ''Cosine Wave'' then
        Inr (ts, map (\<lambda>\<tau>. amplitude * cos (2 * pi * frequency * \<tau> + phase) + dc_offset) ts)
      else if signal_type = ''Square Wave'' then
        (let duty_cycle = get_num (num_arg kwargs) ''duty_cycle'' 0.5 in
         Inr (ts, map (\<lambda>\<tau>. amplitude * square (2 * pi * frequency * \<tau> + phase) duty_cycle
                              + dc_offset) ts))
      else if signal_type = ''Triangle Wave'' then
        (let width = get_num (num_arg kwargs) ''width'' 0.5 in
         Inr (ts, map (\<lambda>\<tau>. amplitude * sawtooth (2 * pi * frequency * \<tau> + phase) width
                              + dc_offset) ts))
      else if signal_type = ''Sawtooth Wave'' then
        Inr (ts, map (\<lambda>\<tau>. amplitude * sawtooth (2 * pi * frequency * \<tau> + phase) 1
                             + dc_offset) ts)
      else if signal_type = ''Exponential Decay'' then
        (let decay_rate = get_num (num_arg kwargs) ''decay_rate'' 1 in
         Inr (ts, map (\<lambda>\<tau>. amplitude * exp (- decay_rate * \<tau>) + dc_offset) ts))
      else if signal_type = ''Unit Step'' then
        (let step_time = get_num (num_arg kwargs) ''step_time'' 0 in
         Inr (ts, map (\<lambda>\<tau>. amplitude * (if \<tau> \<ge> step_time then 1 else 0) + dc_offset) ts))
      else if signal_type = ''Impulse'' then
        (let impulse_time = get_num (num_arg kwargs) ''impulse_time'' 0;
             x = replicate (length ts) 0
         in case argmin (map (\<lambda>\<tau>. \<bar>\<tau> - impulse_time\<bar>) ts) of
              Inl e \<Rightarrow> Inl e
            | Inr idx \<Rightarrow> Inr (ts, x[idx := amplitude]))
      else if signal_type = ''Gaussian Pulse'' then
        (let center = get_num (num_arg kwargs) ''center'' (self_duration self / 2);
             std_dev = get_num (num_arg kwargs) ''std_dev'' 0.1
         in Inr (ts, map (\<lambda>\<tau>. amplitude * exp (- 0.5 * ((\<tau> - center) / std_dev) ^ 2)
                                 + dc_offset) ts))
      else if signal_type = ''Custom Function'' then
        (let func = (case function_arg kwargs of None \<Rightarrow> default_function | Some f \<Rightarrow> f)
         in case func ts of
              None \<Rightarrow> Inl Invalid_custom_function
            | Some ys \<Rightarrow> Inr (ts, map (\<lambda>y. y + dc_offset) ys))
      else Inl Unknown_signal_type)"

text \<open>The signal types whose samples are a closed formula of the sample time.\<close>

definition formula_types :: "string list" where
  "formula_types = [''Sine Wave'', ''Cosine Wave'', ''Square Wave'', ''Triangle Wave'',
     ''Sawtooth Wave'', ''Exponential Decay'', ''Unit Step'', ''Gaussian Pulse'']"

section \<open>Responses\<close>

text \<open>
  Modelled from the spec: \<open>scipy.signal.lfilter\<close> is a library routine. Section 4.3
  (Filtering kernel) gives it as the direct-form recurrence
  \<open>y[n] = (sum k=0..M. b[k] * x[n-k] - sum k=1..N. a[k] * y[n-k]) / a[0]\<close>, where any
  \<open>x[n-k]\<close> or \<open>y[n-k]\<close> with a negative index counts as 0. \<open>kernel b a x ys n\<close> is
  sample \<open>n\<close> from the input and the outputs \<open>ys\<close> already computed; the recurrence
  needs \<open>a[0]\<close> to exist and to be non-zero. On an empty input the recurrence gives the
  empty output; the library itself may reject an empty input, which \<open>apply_system\<close>
  guards against and the responses do not.
\<close>

definition kernel :: "real list \<Rightarrow> real list \<Rightarrow> real list \<Rightarrow> real list \<Rightarrow> nat \<Rightarrow> real" where
  "kernel b a x ys n =
     ((\<Sum>k \<leftarrow> [0..<length b]. if k \<le> n then b ! k * x ! (n - k) else 0)
      - (\<Sum>k \<leftarrow> [1..<length a]. if k \<le> n then a ! k * ys ! (n - k) else 0)) / a ! 0"

primrec lfilter_upto :: "real list \<Rightarrow> real list \<Rightarrow> real list \<Rightarrow> nat \<Rightarrow> real list" where
  "lfilter_upto b a x 0 = []"
| "lfilter_upto b a x (Suc n) =
     (let ys = lfilter_upto b a x n in ys @ [kernel b a x ys n])"

definition lfilter :: "real list \<Rightarrow> real list \<Rightarrow> real list \<Rightarrow> error + real list" where
  "lfilter b a x =
     (if a = [] then Inl Library_failure
      else if a ! 0 = 0 then Inl Zero_division
      else Inr (lfilter_upto b a x (length x)))"

text \<open>
  \<open>scipy.signal.dimpulse\<close> and \<open>scipy.signal.dstep\<close> on \<open>dlti(b, a, dt)\<close> are
  library routines, taken as parameters: from \<open>b\<close>, \<open>a\<close>, \<open>dt\<close> and the time vector
  they give the output times and the squeezed response, or fail.
\<close>

type_synonym dresponse_fn =
  "real list \<Rightarrow> real list \<Rightarrow> real \<Rightarrow> real list \<Rightarrow> error + (real list \<times> real list)"

text \<open>The default time vector of the responses: two seconds at the sampling rate.\<close>

definition default_t :: "real \<Rightarrow> real list option \<Rightarrow> error + real list" where
  "default_t fs t = (case t of None \<Rightarrow> linspace 0 2 (py_int (2 * fs)) False | Some ts \<Rightarrow> Inr ts)"

text \<open>\<open>impulse = np.zeros(N); impulse[0] = 1.0\<close> raises \<open>IndexError\<close> when \<open>N = 0\<close>.\<close>

definition unit_impulse :: "nat \<Rightarrow> error + real list" where
  "unit_impulse N = (if N = 0 then Inl Index_out_of_bounds else Inr ((replicate N 0)[0 := 1]))"

text \<open>
  In the static-gain branch \<open>b[0] / a[0]\<close> with \<open>a[0] = 0\<close> raises on Python floats
  and gives a non-finite value on numpy floats; either way no finite response exists
  and the model reports \<open>Zero_division\<close>.
\<close>

definition impulse_response ::
  "dresponse_fn \<Rightarrow> real \<Rightarrow> real list \<Rightarrow> real list \<Rightarrow> real list option
     \<Rightarrow> error + (real list \<times> real list)" where
  "impulse_response dimpulse fs b a t =
     (case default_t fs t of
        Inl e \<Rightarrow> Inl e
      | Inr ts \<Rightarrow>
          if length a = 1 \<and> length b = 1 then
            (if a ! 0 = 0 then Inl Zero_division
             else if ts = [] then Inl Index_out_of_bounds
             else Inr (ts, (replicate (length ts) 0)[0 := b ! 0 / a ! 0]))
          else if length b > length a then
            (case unit_impulse (length ts) of
               Inl e \<Rightarrow> Inl e
             | Inr impulse \<Rightarrow>
                 (case lfilter b a impulse of Inl e \<Rightarrow> Inl e | Inr h \<Rightarrow> Inr (ts, h)))
          else
            (case (if fs = 0 then Inl Zero_division else dimpulse b a (1 / fs) ts) of
               Inr (t_out, h) \<Rightarrow> Inr (t_out, h)
             | Inl _ \<Rightarrow>
                 (case unit_impulse (length ts) of
                    Inl e \<Rightarrow> Inl e
                  | Inr impulse \<Rightarrow>
                      (case lfilter b a impulse of Inl e \<Rightarrow> Inl e | Inr h \<Rightarrow> Inr (ts, h)))))"

definition step_response ::
  "dresponse_fn \<Rightarrow> real \<Rightarrow> real list \<Rightarrow> real list \<Rightarrow> real list option
     \<Rightarrow> error + (real list \<times> real list)" where
  "step_response dstep fs b a t =
     (case default_t fs t of
        Inl e \<Rightarrow> Inl e
      | Inr ts \<Rightarrow>
          if length a = 1 \<and> length b = 1 then
            (if a ! 0 = 0 then Inl Zero_division
             else let step_val = b ! 0 / a ! 0 in Inr (ts, replicate (length ts) step_val))
          else if length b > length a then
            (case lfilter b a (replicate (length ts) 1) of
               Inl e \<Rightarrow> Inl e | Inr s \<Rightarrow> Inr (ts, s))
          else
            (case (if fs = 0 then Inl Zero_division else dstep b a (1 / fs) ts) of
               Inr (t_out, s) \<Rightarrow> Inr (t_out, s)
             | Inl _ \<Rightarrow>
                 (case lfilter b a (replicate (length ts) 1) of
                    Inl e \<Rightarrow> Inl e | Inr s \<Rightarrow> Inr (ts, s))))"

definition apply_system :: "real list \<Rightarrow> real list \<Rightarrow> real list \<Rightarrow> error + real list" where
  "apply_system b a input_signal =
     (if length input_signal = 0 then Inr [] else lfilter b a input_signal)"

text \<open>
  \<open>scipy.signal.freqz(b, a, worN, fs)\<close> is a library routine, taken as a parameter:
  it gives the frequencies and the response, or fails. A response sample is a pair of
  real and imaginary part, each \<open>None\<close> when it is not finite; \<open>np.nan_to_num\<close> with
  \<open>nan = posinf = neginf = 0\<close> puts 0 for every part that is not finite.
\<close>

type_synonym freqz_fn =
  "real list \<Rightarrow> real list \<Rightarrow> int \<Rightarrow> real \<Rightarrow> error + (real list \<times> (real option \<times> real option) list)"

definition nan_to_num :: "real option \<times> real option \<Rightarrow> complex" where
  "nan_to_num z = Complex (case fst z of None \<Rightarrow> 0 | Some r \<Rightarrow> r)
                          (case snd z of None \<Rightarrow> 0 | Some i \<Rightarrow> i)"

definition frequency_response ::
  "freqz_fn \<Rightarrow> real \<Rightarrow> real list \<Rightarrow> real list \<Rightarrow> int \<Rightarrow> error + (real list \<times> complex list)" where
  "frequency_response freqz fs b a n_points =
     (case freqz b a n_points fs of
        Inr (w, h) \<Rightarrow> Inr (w, map nan_to_num h)
      | Inl _ \<Rightarrow>
          (case linspace 0 (fs / 2) (n_points div 2 + 1) True of
             Inl e \<Rightarrow> Inl e
           | Inr w \<Rightarrow> Inr (w, map (\<lambda>f. 0) w)))"

text \<open>A \<open>freqz\<close> whose evaluation fails, as on an empty denominator array.\<close>

definition freqz_fails :: freqz_fn where
  "freqz_fails b a worN fs = Inl Library_failure"

section \<open>FourierTransform\<close>

text \<open>
  Modelled from the spec: \<open>scipy.fft.fft\<close>, \<open>scipy.fft.ifft\<close> and
  \<open>scipy.fft.fftfreq\<close> are library routines. By section 4.4,
  \<open>X[k] = sum n. x[n] * exp (-2 pi i k n / N)\<close> (the standard DFT), the inverse
  transform is the standard inverse DFT, and \<open>freq[k]\<close> is \<open>k * fs / N\<close> for the
  first half of the bins and \<open>(k - N) * fs / N\<close> for the rest. The library rejects an
  empty array (invalid number of data points), and \<open>fftfreq\<close> divides by \<open>n * d\<close>.
\<close>

definition fft_fft :: "complex list \<Rightarrow> error + complex list" where
  "fft_fft x =
     (let N = length x in
      if N = 0 then Inl Invalid_number_of_data_points
      else Inr (map (\<lambda>k. \<Sum>n<N. x ! n * cis (- (2 * pi * real k * real n / real N))) [0..<N]))"

definition fft_ifft :: "complex list \<Rightarrow> error + complex list" where
  "fft_ifft X =
     (let N = length X in
      if N = 0 then Inl Invalid_number_of_data_points
      else Inr (map (\<lambda>n. (\<Sum>k<N. X ! k * cis (2 * pi * real k * real n / real N)) / of_nat N)
                  [0..<N]))"

definition fftfreq :: "nat \<Rightarrow> real \<Rightarrow> error + real list" where
  "fftfreq n d =
     (if real n * d = 0 then Inl Zero_division
      else let val = 1 / (real n * d);
               N = (n - 1) div 2 + 1
           in Inr (map (\<lambda>k. (if k < N then real k else - real (n div 2) + real (k - N)) * val)
                     [0..<n]))"

definition FourierTransform_fft :: "real list \<Rightarrow> real \<Rightarrow> error + (real list \<times> complex list)" where
  "FourierTransform_fft signal fs =
     (let N = length signal in
      case fft_fft (map complex_of_real signal) of
        Inl e \<Rightarrow> Inl e
      | Inr X \<Rightarrow>
          if fs = 0 then Inl Zero_division
          else (case fftfreq N (1 / fs) of Inl e \<Rightarrow> Inl e | Inr freq \<Rightarrow> Inr (freq, X)))"

definition FourierTransform_ifft :: "complex list \<Rightarrow> error + real list" where
  "FourierTransform_ifft X = (case fft_ifft X of Inl e \<Rightarrow> Inl e | Inr y \<Rightarrow> Inr (map Re y))"

text \<open>The round trip: \<open>ifft\<close> applied to the spectrum that \<open>fft\<close> returns.\<close>

definition round_trip :: "real list \<Rightarrow> real \<Rightarrow> error + real list" where
  "round_trip x fs =
     (case FourierTransform_fft x fs of
        Inl e \<Rightarrow> Inl e
      | Inr (freq, X) \<Rightarrow> FourierTransform_ifft X)"

text \<open>A response routine that fails, so that the fallback to the kernel runs.\<close>

definition no_dresponse :: dresponse_fn where
  "no_dresponse b a dt ts = Inl Library_failure"

text \<open>
  The custom-function text \<open>np.zeros(3)\<close>: whatever the time vector, it evaluates to
  three samples.
\<close>

definition zeros3_function :: "real list \<Rightarrow> real list option" where
  "zeros3_function ts = Some [0, 0, 0]"

section \<open>Custom systems\<close>

lemma custom_eval:
  "create_system butter fs ''Custom System'' (custom_kwargs (Some b0) (Some a0)) =
     (if b0 = [] \<or> a0 = [] then Inl Invalid_system_coefficients
      else if \<bar>hd (if trim_zeros_f a0 \<noteq> [] then trim_zeros_f a0 else [1])\<bar> < 1 / 10 ^ 12
        then Inl Invalid_system_coefficients
      else Inr (if trim_zeros_f b0 \<noteq> [] then trim_zeros_f b0 else [0],
                if trim_zeros_f a0 \<noteq> [] then trim_zeros_f a0 else [1]))"
  by (simp add: create_system_def custom_kwargs_def get_text_def Let_def)

lemma custom_eval_none:
  "nm = None \<or> dn = None \<Longrightarrow>
   create_system butter fs ''Custom System'' (custom_kwargs nm dn) = Inl Invalid_system_coefficients"
  by (auto simp add: create_system_def custom_kwargs_def get_text_def Let_def split: option.splits)

text \<open>
  Claim C1, as amended. A custom system fails with \<open>Invalid_system_coefficients\<close>
  exactly when the evaluation of either text raises, when either evaluated array is
  empty before trimming, or when the denominator, after its leading exactly-zero
  coefficients are dropped, is not empty and starts with a coefficient of absolute
  value below \<open>1e-12\<close>. In every other case it succeeds: an all-zero numerator is
  replaced by \<open>[0]\<close> and an all-zero denominator by \<open>[1]\<close>.
\<close>

theorem create_system_custom:
  "(create_system butter fs ''Custom System'' (custom_kwargs nm dn) = Inl Invalid_system_coefficients
      \<longleftrightarrow> nm = None \<or> dn = None \<or> nm = Some [] \<or> dn = Some []
          \<or> (\<exists>a0. dn = Some a0 \<and> trim_zeros_f a0 \<noteq> [] \<and> \<bar>hd (trim_zeros_f a0)\<bar> < 1 / 10 ^ 12))
   \<and> (create_system butter fs ''Custom System'' (custom_kwargs nm dn) \<noteq> Inl Invalid_system_coefficients
      \<longrightarrow> (\<exists>b0 a0. nm = Some b0 \<and> dn = Some a0 \<and>
            create_system butter fs ''Custom System'' (custom_kwargs nm dn) =
              Inr (if trim_zeros_f b0 = [] then [0] else trim_zeros_f b0,
                   if trim_zeros_f a0 = [] then [1] else trim_zeros_f a0)))"
proof (cases "nm = None \<or> dn = None")
  case True
  then show ?thesis using custom_eval_none[of nm dn butter fs] by auto
next
  case False
  then obtain b0 a0 where s: "nm = Some b0" "dn = Some a0" by auto
  show ?thesis unfolding s custom_eval by auto
qed

text \<open>The denominator text \<open>[0, 1]\<close> is trimmed to \<open>[1]\<close> and accepted.\<close>

theorem create_system_custom_witness:
  "create_system no_butter 1000 ''Custom System'' (custom_kwargs (Some [1]) (Some [0, 1])) = Inr ([1], [1])"
  using create_system_custom[of no_butter 1000 "Some [1]" "Some [0, 1]"]
  by (simp add: trim_zeros_f_def Let_def)

text \<open>
  Claim C1 as stated fails: the denominator text \<open>[0]\<close> is empty after trimming, and
  the system is created all the same, with denominator \<open>[1]\<close>.
\<close>

theorem custom_zero_denominator_succeeds:
  "trim_zeros_f [0] = [] \<and>
   create_system no_butter 1000 ''Custom System'' (custom_kwargs (Some [1]) (Some [0])) = Inr ([1], [1])"
  by (simp add: create_system_def custom_kwargs_def get_text_def trim_zeros_f_def Let_def)

section \<open>Band-pass band\<close>





section \<open>The filtering kernel on a moving average\<close>

lemma length_lfilter_upto: "length (lfilter_upto b a x n) = n"
  by (induction n) (simp_all add: Let_def)

lemma lfilter_upto_nth:
  "m < n \<Longrightarrow> lfilter_upto b a x n ! m = kernel b a x (lfilter_upto b a x m) m"
proof (induction n)
  case 0
  then show ?case by simp
next
  case (Suc n)
  show ?case
  proof (cases "m < n")
    case True
    then show ?thesis using Suc.IH by (simp add: Let_def nth_append length_lfilter_upto)
  next
    case False
    with Suc.prems have "m = n" by simp
    then show ?thesis by (simp add: Let_def nth_append length_lfilter_upto)
  qed
qed

lemma kernel_fir:
  "kernel b [1] x ys n = (\<Sum>k \<leftarrow> [0..<length b]. if k \<le> n then b ! k * x ! (n - k) else 0)"
  by (simp add: kernel_def)

lemma kernel_average_constant:
  assumes "1 \<le> N" "N - 1 \<le> n" "n < L"
  shows "kernel (replicate N (1 / real N)) [1] (replicate L v) ys n = v"
proof -
  let ?f = "\<lambda>k. if k \<le> n then replicate N (1 / real N) ! k * replicate L v ! (n - k) else 0"
  have eq: "map ?f [0..<N] = map (\<lambda>k. v / real N) [0..<N]"
    using assms by (intro map_cong) auto
  have "kernel (replicate N (1 / real N)) [1] (replicate L v) ys n = sum_list (map ?f [0..<N])"
    by (simp only: kernel_fir length_replicate)
  also have "\<dots> = sum_list (map (\<lambda>k. v / real N) [0..<N])"
    by (simp only: eq)
  also have "\<dots> = real N * (v / real N)"
    by (simp add: sum_list_triv)
  also have "\<dots> = v" using assms by simp
  finally show ?thesis .
qed

lemma moving_average_coefficients:
  assumes "1 \<le> N"
  shows "create_system butter fs ''Moving Average''
           \<lparr>num_kw = [''window_size'' \<mapsto> real N], text_kw = Map.empty\<rparr>
         = Inr (replicate N (1 / real N), [1])"
  using assms by (simp add: create_system_def get_num_def py_int_def Let_def)

text \<open>
  Claim C8. For a window \<open>N \<ge> 1\<close>, \<open>create_system\<close> gives the moving average
  \<open>b = [1/N] * N\<close>, \<open>a = [1]\<close>, and applying it to a constant signal of value \<open>v\<close>
  with at least \<open>N\<close> samples gives an output of the same length that equals \<open>v\<close> at
  every index \<open>n \<ge> N - 1\<close>.
\<close>

theorem moving_average_constant:
  assumes "1 \<le> N" and "N \<le> L"
  shows "\<exists>ys. create_system butter fs ''Moving Average''
                \<lparr>num_kw = [''window_size'' \<mapsto> real N], text_kw = Map.empty\<rparr>
              = Inr (replicate N (1 / real N), [1])
            \<and> apply_system (replicate N (1 / real N)) [1] (replicate L v) = Inr ys
            \<and> length ys = L
            \<and> (\<forall>n. N - 1 \<le> n \<and> n < L \<longrightarrow> ys ! n = v)"
proof -
  let ?b = "replicate N (1 / real N)"
  let ?ys = "lfilter_upto ?b [1] (replicate L v) L"
  have "apply_system ?b [1] (replicate L v) = Inr ?ys"
    using assms by (simp add: apply_system_def lfilter_def)
  moreover have "length ?ys = L" by (simp add: length_lfilter_upto)
  moreover have "\<forall>n. N - 1 \<le> n \<and> n < L \<longrightarrow> ?ys ! n = v"
    using assms by (simp add: lfilter_upto_nth kernel_average_constant)
  ultimately show ?thesis using moving_average_coefficients[OF assms(1)] by blast
qed

text \<open>Window 2 on three samples of value 7.\<close>

theorem moving_average_constant_witness:
  "\<exists>ys. apply_system (replicate 2 (1 / 2)) [1] (replicate 3 7) = Inr ys
        \<and> length ys = 3 \<and> ys ! 1 = 7 \<and> ys ! 2 = 7"
  using moving_average_constant[of 2 3 no_butter 1000 7]
  by (auto simp add: numeral_2_eq_2)

section \<open>Static-gain responses\<close>

text \<open>
  Claim C5, as amended. For \<open>b\<close> and \<open>a\<close> of length 1 with \<open>a[0]\<close> non-zero:
  for every non-empty time vector the impulse response is \<open>b[0] / a[0]\<close> at sample 0
  and 0 at every other sample; for every time vector (empty or not) the step response
  is the constant array of value \<open>b[0] / a[0]\<close> with the length of the time vector.
\<close>

theorem static_gain_responses:
  assumes "length b = 1" and "length a = 1" and "a ! 0 \<noteq> 0"
  shows "(ts \<noteq> [] \<longrightarrow>
            impulse_response dimpulse fs b a (Some ts)
              = Inr (ts, (b ! 0 / a ! 0) # replicate (length ts - 1) 0))
       \<and> step_response dstep fs b a (Some ts) = Inr (ts, replicate (length ts) (b ! 0 / a ! 0))"
proof -
  have "(replicate (length ts) (0::real))[0 := b ! 0 / a ! 0]
          = (b ! 0 / a ! 0) # replicate (length ts - 1) 0" if "ts \<noteq> []"
    using that by (cases ts) simp_all
  then show ?thesis
    using assms by (simp add: impulse_response_def step_response_def default_t_def)
qed

text \<open>Gain \<open>3 / 2\<close> on three samples.\<close>

theorem static_gain_responses_witness:
  "impulse_response no_dresponse 1000 [3] [2] (Some [0, 1, 2]) = Inr ([0, 1, 2], [3 / 2, 0, 0])
   \<and> step_response no_dresponse 1000 [3] [2] (Some [0, 1, 2]) = Inr ([0, 1, 2], [3 / 2, 3 / 2, 3 / 2])"
  using static_gain_responses[of "[3]" "[2]" "[0, 1, 2]" no_dresponse 1000 no_dresponse]
  by (simp add: numeral_3_eq_3 numeral_2_eq_2)

text \<open>
  Claim C5 as stated fails: on the empty time vector the impulse response has no
  sample 0 to set, and the assignment \<open>h[0] = ...\<close> raises \<open>IndexError\<close>.
\<close>

theorem static_gain_impulse_empty_time:
  "impulse_response no_dresponse 1000 [2] [1] (Some []) = Inl Index_out_of_bounds"
  by (simp add: impulse_response_def default_t_def)

section \<open>The generated signals\<close>

lemma argmin_scan_correct:
  assumes "length pre = i" and "best < i" and "v = (pre @ xs) ! best"
    and "\<forall>j<i. v \<le> (pre @ xs) ! j" and "\<forall>j<best. v < (pre @ xs) ! j"
  shows "argmin_scan xs i best v < length (pre @ xs)
       \<and> (\<forall>j<length (pre @ xs). (pre @ xs) ! argmin_scan xs i best v \<le> (pre @ xs) ! j)
       \<and> (\<forall>j<argmin_scan xs i best v. (pre @ xs) ! argmin_scan xs i best v < (pre @ xs) ! j)"
  using assms
proof (induction xs arbitrary: pre i best v)
  case Nil
  then show ?case by auto
next
  case (Cons x xs)
  let ?w = "pre @ x # xs"
  have w: "?w = (pre @ [x]) @ xs" by simp
  have xi: "?w ! i = x" using Cons.prems(1) by (simp add: nth_append)
  show ?case
  proof (cases "x < v")
    case True
    have a: "\<forall>j<Suc i. x \<le> ?w ! j"
    proof (intro allI impI)
      fix j assume "j < Suc i"
      then consider "j < i" | "j = i" by linarith
      then show "x \<le> ?w ! j"
        using Cons.prems(4) True xi by cases force+
    qed
    have b: "\<forall>j<i. x < ?w ! j"
      using Cons.prems(4) True by force
    have "argmin_scan xs (Suc i) i x < length ((pre @ [x]) @ xs)
       \<and> (\<forall>j<length ((pre @ [x]) @ xs). ((pre @ [x]) @ xs) ! argmin_scan xs (Suc i) i x \<le> ((pre @ [x]) @ xs) ! j)
       \<and> (\<forall>j<argmin_scan xs (Suc i) i x. ((pre @ [x]) @ xs) ! argmin_scan xs (Suc i) i x < ((pre @ [x]) @ xs) ! j)"
      using Cons.prems(1) xi a b by (intro Cons.IH) (simp_all del: append_assoc add: w[symmetric])
    then show ?thesis using True by (simp del: append_assoc add: w[symmetric])
  next
    case False
    have a: "\<forall>j<Suc i. v \<le> ?w ! j"
    proof (intro allI impI)
      fix j assume "j < Suc i"
      then consider "j < i" | "j = i" by linarith
      then show "v \<le> ?w ! j"
        using Cons.prems(4) False xi by cases force+
    qed
    have "argmin_scan xs (Suc i) best v < length ((pre @ [x]) @ xs)
       \<and> (\<forall>j<length ((pre @ [x]) @ xs). ((pre @ [x]) @ xs) ! argmin_scan xs (Suc i) best v \<le> ((pre @ [x]) @ xs) ! j)
       \<and> (\<forall>j<argmin_scan xs (Suc i) best v. ((pre @ [x]) @ xs) ! argmin_scan xs (Suc i) best v < ((pre @ [x]) @ xs) ! j)"
      using Cons.prems a by (intro Cons.IH) (simp_all del: append_assoc add: w[symmetric])
    then show ?thesis using False by (simp del: append_assoc add: w[symmetric])
  qed
qed

lemma argmin_correct:
  assumes "xs \<noteq> []"
  shows "\<exists>r<length xs. argmin xs = Inr r \<and> (\<forall>j<length xs. xs ! r \<le> xs ! j) \<and> (\<forall>j<r. xs ! r < xs ! j)"
proof -
  from assms obtain x rest where xs: "xs = x # rest" by (cases xs) auto
  have "argmin_scan rest 1 0 x < length ([x] @ rest)
       \<and> (\<forall>j<length ([x] @ rest). ([x] @ rest) ! argmin_scan rest 1 0 x \<le> ([x] @ rest) ! j)
       \<and> (\<forall>j<argmin_scan rest 1 0 x. ([x] @ rest) ! argmin_scan rest 1 0 x < ([x] @ rest) ! j)"
    by (rule argmin_scan_correct) simp_all
  then show ?thesis by (simp add: xs argmin_def)
qed

lemma generate_impulse:
  "generate g ''Impulse'' kw =
     (case argmin (map (\<lambda>\<tau>. \<bar>\<tau> - get_num (num_arg kw) ''impulse_time'' 0\<bar>) (self_t g)) of
        Inl e \<Rightarrow> Inl e
      | Inr idx \<Rightarrow> Inr (self_t g, (replicate (length (self_t g)) 0)
                                   [idx := get_num (num_arg kw) ''amplitude'' 1]))"
  by (simp add: generate_def Let_def)

lemma generate_custom:
  "generate g ''Custom Function'' kw =
     (case (case function_arg kw of None \<Rightarrow> default_function | Some f \<Rightarrow> f) (self_t g) of
        None \<Rightarrow> Inl Invalid_custom_function
      | Some ys \<Rightarrow> Inr (self_t g, map (\<lambda>y. y + get_num (num_arg kw) ''dc_offset'' 0) ys))"
  by (simp add: generate_def Let_def)

lemma generate_formula:
  assumes "ty \<in> set formula_types"
  shows "\<exists>f. \<forall>g kw. generate g ty kw
           = Inr (self_t g, map (\<lambda>\<tau>. f ((num_arg kw)(''dc_offset'' := None)) (self_duration g) \<tau>
                                      + get_num (num_arg kw) ''dc_offset'' 0) (self_t g))"
proof -
  have dc: "get_num (m(''dc_offset'' := None)) k d = get_num m k d" if "k \<noteq> ''dc_offset''" for m k d
    using that by (simp add: get_num_def)
  consider "ty = ''Sine Wave''" | "ty = ''Cosine Wave''" | "ty = ''Square Wave''"
    | "ty = ''Triangle Wave''" | "ty = ''Sawtooth Wave''" | "ty = ''Exponential Decay''"
    | "ty = ''Unit Step''" | "ty = ''Gaussian Pulse''"
    using assms unfolding formula_types_def list.set insert_iff empty_iff by argo
  then show ?thesis
  proof cases
    case 1
    show ?thesis unfolding 1
      by (rule exI[of _ "\<lambda>m d \<tau>. get_num m ''amplitude'' 1
            * sin (2 * pi * get_num m ''frequency'' 1 * \<tau> + get_num m ''phase'' 0)"])
         (simp add: generate_def Let_def dc)
  next
    case 2
    show ?thesis unfolding 2
      by (rule exI[of _ "\<lambda>m d \<tau>. get_num m ''amplitude'' 1
            * cos (2 * pi * get_num m ''frequency'' 1 * \<tau> + get_num m ''phase'' 0)"])
         (simp add: generate_def Let_def dc)
  next
    case 3
    show ?thesis unfolding 3
      by (rule exI[of _ "\<lambda>m d \<tau>. get_num m ''amplitude'' 1
            * square (2 * pi * get_num m ''frequency'' 1 * \<tau> + get_num m ''phase'' 0)
                (get_num m ''duty_cycle'' 0.5)"])
         (simp add: generate_def Let_def dc)
  next
    case 4
    show ?thesis unfolding 4
      by (rule exI[of _ "\<lambda>m d \<tau>. get_num m ''amplitude'' 1
            * sawtooth (2 * pi * get_num m ''frequency'' 1 * \<tau> + get_num m ''phase'' 0)
                (get_num m ''width'' 0.5)"])
         (simp add: generate_def Let_def dc)
  next
    case 5
    show ?thesis unfolding 5
      by (rule exI[of _ "\<lambda>m d \<tau>. get_num m ''amplitude'' 1
            * sawtooth (2 * pi * get_num m ''frequency'' 1 * \<tau> + get_num m ''phase'' 0) 1"])
         (simp add: generate_def Let_def dc)
  next
    case 6
    show ?thesis unfolding 6
      by (rule exI[of _ "\<lambda>m d \<tau>. get_num m ''amplitude'' 1
            * exp (- get_num m ''decay_rate'' 1 * \<tau>)"])
         (simp add: generate_def Let_def dc)
  next
    case 7
    show ?thesis unfolding 7
      by (rule exI[of _ "\<lambda>m d \<tau>. get_num m ''amplitude'' 1
            * (if \<tau> \<ge> get_num m ''step_time'' 0 then 1 else 0)"])
         (simp add: generate_def Let_def dc)
  next
    case 8
    show ?thesis unfolding 8
      by (rule exI[of _ "\<lambda>m d \<tau>. get_num m ''amplitude'' 1
            * exp (- 0.5 * ((\<tau> - get_num m ''center'' (d / 2)) / get_num m ''std_dev'' 0.1) ^ 2)"])
         (simp add: generate_def Let_def dc)
  qed
qed

lemma generate_formula_dc:
  assumes "ty \<in> set formula_types"
  shows "generate g ty (kw\<lparr>num_arg := (num_arg kw)(''dc_offset'' \<mapsto> D)\<rparr>)
       = map_sum id (\<lambda>(t, x). (t, map (\<lambda>y. y + D) x))
           (generate g ty (kw\<lparr>num_arg := (num_arg kw)(''dc_offset'' \<mapsto> 0)\<rparr>))"
proof -
  from generate_formula[OF assms] obtain f where
    f: "\<And>g kw. generate g ty kw
           = Inr (self_t g, map (\<lambda>\<tau>. f ((num_arg kw)(''dc_offset'' := None)) (self_duration g) \<tau>
                                      + get_num (num_arg kw) ''dc_offset'' 0) (self_t g))"
    by blast
  show ?thesis by (simp add: f get_num_def)
qed

lemma generate_custom_dc:
  "generate g ''Custom Function'' (kw\<lparr>num_arg := (num_arg kw)(''dc_offset'' \<mapsto> D)\<rparr>)
       = map_sum id (\<lambda>(t, x). (t, map (\<lambda>y. y + D) x))
           (generate g ''Custom Function'' (kw\<lparr>num_arg := (num_arg kw)(''dc_offset'' \<mapsto> 0)\<rparr>))"
  by (simp add: generate_custom get_num_def split: option.splits)

lemma generate_impulse_dc:
  "generate g ''Impulse'' (kw\<lparr>num_arg := (num_arg kw)(''dc_offset'' \<mapsto> D)\<rparr>)
     = generate g ''Impulse'' kw"
  by (simp add: generate_impulse get_num_def cong: sum.case_cong)

lemma impulse_on_nonempty:
  assumes "self_t g \<noteq> []"
  shows "\<exists>idx<length (self_t g).
           generate g ''Impulse'' kw
             = Inr (self_t g, (replicate (length (self_t g)) 0)
                                [idx := get_num (num_arg kw) ''amplitude'' 1])
         \<and> (\<forall>j<length (self_t g).
               \<bar>self_t g ! idx - get_num (num_arg kw) ''impulse_time'' 0\<bar>
                 \<le> \<bar>self_t g ! j - get_num (num_arg kw) ''impulse_time'' 0\<bar>)
         \<and> (\<forall>j<idx.
               \<bar>self_t g ! idx - get_num (num_arg kw) ''impulse_time'' 0\<bar>
                 < \<bar>self_t g ! j - get_num (num_arg kw) ''impulse_time'' 0\<bar>)"
proof -
  let ?s = "get_num (num_arg kw) ''impulse_time'' 0"
  let ?d = "map (\<lambda>\<tau>. \<bar>\<tau> - ?s\<bar>) (self_t g)"
  have "?d \<noteq> []" using assms by simp
  from argmin_correct[OF this] obtain r where
    r: "r < length (self_t g)" "argmin ?d = Inr r"
       "\<forall>j<length (self_t g). ?d ! r \<le> ?d ! j" "\<forall>j<r. ?d ! r < ?d ! j"
    by auto
  have near: "\<forall>j<length (self_t g). \<bar>self_t g ! r - ?s\<bar> \<le> \<bar>self_t g ! j - ?s\<bar>"
    using r(1,3) by simp
  have first: "\<forall>j<r. \<bar>self_t g ! r - ?s\<bar> < \<bar>self_t g ! j - ?s\<bar>"
    using r(1,4) by simp
  have gen: "generate g ''Impulse'' kw
      = Inr (self_t g, (replicate (length (self_t g)) 0)[r := get_num (num_arg kw) ''amplitude'' 1])"
    by (simp add: generate_impulse r(2))
  show ?thesis using r(1) gen near first by blast
qed

text \<open>
  Claim C6, as amended. On a non-empty time vector, \<open>generate\<close> of an \<open>Impulse\<close>
  returns the array that is 0 everywhere except at one index \<open>idx\<close>, where it is the
  amplitude; the sample time at \<open>idx\<close> is nearest to the impulse time (and \<open>idx\<close> is
  the first such index). The DC offset is not added: the result does not depend on it,
  whereas for every other signal type the samples with offset \<open>D\<close> are the samples
  with offset 0 plus \<open>D\<close>.
\<close>

theorem impulse_signal:
  assumes "self_t g \<noteq> []"
  shows "\<exists>idx<length (self_t g).
           generate g ''Impulse'' kw
             = Inr (self_t g, (replicate (length (self_t g)) 0)
                                [idx := get_num (num_arg kw) ''amplitude'' 1])
         \<and> (\<forall>j<length (self_t g).
               \<bar>self_t g ! idx - get_num (num_arg kw) ''impulse_time'' 0\<bar>
                 \<le> \<bar>self_t g ! j - get_num (num_arg kw) ''impulse_time'' 0\<bar>)
         \<and> (\<forall>j<idx.
               \<bar>self_t g ! idx - get_num (num_arg kw) ''impulse_time'' 0\<bar>
                 < \<bar>self_t g ! j - get_num (num_arg kw) ''impulse_time'' 0\<bar>)
         \<and> (\<forall>D. generate g ''Impulse'' (kw\<lparr>num_arg := (num_arg kw)(''dc_offset'' \<mapsto> D)\<rparr>)
                  = generate g ''Impulse'' kw)
         \<and> (\<forall>D. \<forall>ty \<in> set formula_types \<union> {''Custom Function''}.
               generate g ty (kw\<lparr>num_arg := (num_arg kw)(''dc_offset'' \<mapsto> D)\<rparr>)
                 = map_sum id (\<lambda>(t, x). (t, map (\<lambda>y. y + D) x))
                     (generate g ty (kw\<lparr>num_arg := (num_arg kw)(''dc_offset'' \<mapsto> 0)\<rparr>)))"
proof -
  from impulse_on_nonempty[OF assms, of kw] obtain r where
    r: "r < length (self_t g)"
       "generate g ''Impulse'' kw
          = Inr (self_t g, (replicate (length (self_t g)) 0)
                             [r := get_num (num_arg kw) ''amplitude'' 1])"
       "\<forall>j<length (self_t g).
               \<bar>self_t g ! r - get_num (num_arg kw) ''impulse_time'' 0\<bar>
                 \<le> \<bar>self_t g ! j - get_num (num_arg kw) ''impulse_time'' 0\<bar>"
       "\<forall>j<r. \<bar>self_t g ! r - get_num (num_arg kw) ''impulse_time'' 0\<bar>
                 < \<bar>self_t g ! j - get_num (num_arg kw) ''impulse_time'' 0\<bar>"
    by blast
  have others: "\<forall>D. \<forall>ty \<in> set formula_types \<union> {''Custom Function''}.
               generate g ty (kw\<lparr>num_arg := (num_arg kw)(''dc_offset'' \<mapsto> D)\<rparr>)
                 = map_sum id (\<lambda>(t, x). (t, map (\<lambda>y. y + D) x))
                     (generate g ty (kw\<lparr>num_arg := (num_arg kw)(''dc_offset'' \<mapsto> 0)\<rparr>))"
    using generate_formula_dc generate_custom_dc by blast
  show ?thesis
    using r others generate_impulse_dc by blast
qed

text \<open>Amplitude 3 at time 0.4 with offset 7, on the time vector \<open>[0, 0.5]\<close>.\<close>

theorem impulse_signal_witness:
  "generate \<lparr>self_fs = 2, self_duration = 1, self_t = [0, 1 / 2]\<rparr> ''Impulse''
      \<lparr>num_arg = [''amplitude'' \<mapsto> 3, ''impulse_time'' \<mapsto> 0.4, ''dc_offset'' \<mapsto> 7], function_arg = None\<rparr>
     = Inr ([0, 1 / 2], [0, 3])"
  using impulse_signal[of "\<lparr>self_fs = 2, self_duration = 1, self_t = [0, 1 / 2]\<rparr>"
      "\<lparr>num_arg = [''amplitude'' \<mapsto> 3, ''impulse_time'' \<mapsto> 0.4, ''dc_offset'' \<mapsto> 7], function_arg = None\<rparr>"]
  by (simp add: generate_impulse argmin_def get_num_def)

text \<open>
  Claim C6 as stated fails: with \<open>fs = 1\<close> and \<open>duration = 0.5\<close> the time vector is
  empty, no sample is nearest to the impulse time, and \<open>generate\<close> of an \<open>Impulse\<close>
  returns no sample array: \<open>np.argmin\<close> raises.
\<close>

theorem impulse_on_empty_time_vector:
  "SignalGenerator_init 1 (1 / 2) = Inr \<lparr>self_fs = 1, self_duration = 1 / 2, self_t = []\<rparr>
   \<and> generate \<lparr>self_fs = 1, self_duration = 1 / 2, self_t = []\<rparr> ''Impulse''
        \<lparr>num_arg = [''amplitude'' \<mapsto> 1, ''impulse_time'' \<mapsto> 0, ''dc_offset'' \<mapsto> 0],
         function_arg = None\<rparr> = Inl Argmin_of_empty_sequence"
  by (simp add: SignalGenerator_init_def linspace_def py_int_def generate_impulse argmin_def)

lemma init_empty:
  assumes "SignalGenerator_init fs duration = Inr g" and "py_int (fs * duration) < 1"
  shows "self_t g = []"
proof -
  have "py_int (fs * duration) = 0 \<or> py_int (fs * duration) < 0" using assms(2) by linarith
  then show ?thesis
    using assms(1) by (auto simp add: SignalGenerator_init_def linspace_def split: if_splits)
qed

text \<open>
  Claim C9, as amended. When the generator's time vector is empty
  (\<open>int(fs * duration) < 1\<close>), \<open>generate\<close> of an \<open>Impulse\<close> fails in \<open>argmin\<close>, with
  an error that is none of the documented kinds, while each of the eight formula types
  returns the empty signal. A custom function returns the empty time vector with
  whatever its expression evaluates to there, plus the offset: the empty signal when
  that is the empty array (as for the default expression), and the invalid-expression
  error when the evaluation raises.
\<close>

theorem impulse_empty_time_vector:
  assumes "SignalGenerator_init fs duration = Inr g" and "py_int (fs * duration) < 1"
  shows "self_t g = []
       \<and> generate g ''Impulse'' kw = Inl Argmin_of_empty_sequence
       \<and> Argmin_of_empty_sequence \<notin> {Unknown_signal_type, Invalid_custom_function,
            Unknown_system_type, Invalid_system_coefficients}
       \<and> (\<forall>ty \<in> set formula_types. generate g ty kw = Inr ([], []))
       \<and> generate g ''Custom Function'' kw =
           (case (case function_arg kw of None \<Rightarrow> default_function | Some f \<Rightarrow> f) [] of
              None \<Rightarrow> Inl Invalid_custom_function
            | Some ys \<Rightarrow> Inr ([], map (\<lambda>y. y + get_num (num_arg kw) ''dc_offset'' 0) ys))
       \<and> ((case function_arg kw of None \<Rightarrow> default_function | Some f \<Rightarrow> f) [] = Some []
            \<longrightarrow> generate g ''Custom Function'' kw = Inr ([], []))
       \<and> (function_arg kw = None \<longrightarrow> generate g ''Custom Function'' kw = Inr ([], []))"
proof -
  have e: "self_t g = []" using init_empty[OF assms] .
  have "generate g ty kw = Inr ([], [])" if "ty \<in> set formula_types" for ty
    using generate_formula[OF that] e by auto
  moreover have c: "generate g ''Custom Function'' kw =
           (case (case function_arg kw of None \<Rightarrow> default_function | Some f \<Rightarrow> f) [] of
              None \<Rightarrow> Inl Invalid_custom_function
            | Some ys \<Rightarrow> Inr ([], map (\<lambda>y. y + get_num (num_arg kw) ''dc_offset'' 0) ys))"
    by (simp add: generate_custom e cong: option.case_cong)
  moreover have "generate g ''Impulse'' kw = Inl Argmin_of_empty_sequence"
    by (simp add: e generate_impulse argmin_def)
  ultimately show ?thesis
    using e by (auto simp add: default_function_def)
qed

text \<open>The generator of duration 0.\<close>

theorem impulse_empty_time_vector_witness:
  "SignalGenerator_init 1000 0 = Inr \<lparr>self_fs = 1000, self_duration = 0, self_t = []\<rparr>
   \<and> generate \<lparr>self_fs = 1000, self_duration = 0, self_t = []\<rparr> ''Impulse''
        \<lparr>num_arg = Map.empty, function_arg = None\<rparr> = Inl Argmin_of_empty_sequence
   \<and> generate \<lparr>self_fs = 1000, self_duration = 0, self_t = []\<rparr> ''Unit Step''
        \<lparr>num_arg = Map.empty, function_arg = None\<rparr> = Inr ([], [])"
proof -
  have i: "SignalGenerator_init 1000 0 = Inr \<lparr>self_fs = 1000, self_duration = 0, self_t = []\<rparr>"
    by (simp add: SignalGenerator_init_def linspace_def py_int_def)
  have p: "py_int (1000 * 0) < 1" by (simp add: py_int_def)
  have u: "''Unit Step'' \<in> set formula_types" by (simp add: formula_types_def)
  show ?thesis
    using i u impulse_empty_time_vector[OF i p, of "\<lparr>num_arg = Map.empty, function_arg = None\<rparr>"]
    by blast
qed

text \<open>
  Claim C9 as stated fails: on the empty time vector the custom function
  \<open>np.zeros(3)\<close> returns three samples, not an empty signal.
\<close>

theorem custom_function_on_empty_time_vector:
  "SignalGenerator_init 1000 0 = Inr \<lparr>self_fs = 1000, self_duration = 0, self_t = []\<rparr>
   \<and> generate \<lparr>self_fs = 1000, self_duration = 0, self_t = []\<rparr> ''Custom Function''
        \<lparr>num_arg = Map.empty, function_arg = Some zeros3_function\<rparr> = Inr ([], [0, 0, 0])"
  by (simp add: SignalGenerator_init_def linspace_def py_int_def generate_custom
        zeros3_function_def get_num_def)

lemma init_positive:
  assumes "0 < fs" and "0 < duration"
  shows "SignalGenerator_init fs duration =
           Inr \<lparr>self_fs = fs, self_duration = duration,
                self_t = map (\<lambda>i. real i * duration / real_of_int \<lfloor>fs * duration\<rfloor>)
                           [0..<nat \<lfloor>fs * duration\<rfloor>]\<rparr>"
proof -
  have "0 \<le> fs * duration" using assms by simp
  then show ?thesis
    by (simp add: SignalGenerator_init_def linspace_def py_int_def)
qed

lemma time_step:
  assumes "0 < duration" and "Suc i < nat n"
  shows "real i * duration / real_of_int n < real (Suc i) * duration / real_of_int n
       \<and> real (Suc i) * duration / real_of_int n - real i * duration / real_of_int n
           = duration / real_of_int n"
proof -
  have n: "0 < real_of_int n" using assms(2) by simp
  have "real (Suc i) * duration / real_of_int n - real i * duration / real_of_int n
           = duration / real_of_int n"
    by (simp add: algebra_simps add_divide_distrib)
  moreover have "0 < duration / real_of_int n" using assms(1) n by simp
  ultimately show ?thesis by linarith
qed

lemma time_integral:
  assumes "0 < fs" and "0 < duration" and "fs * duration \<in> \<int>"
  shows "real i * duration / real_of_int \<lfloor>fs * duration\<rfloor> = real i / fs"
proof -
  have "real_of_int \<lfloor>fs * duration\<rfloor> = fs * duration"
    using assms(3) by (auto simp add: Ints_def)
  then show ?thesis using assms by (simp add: field_simps)
qed

text \<open>
  Claim C4, as amended. For positive \<open>fs\<close> and \<open>duration\<close> the time vector has
  length \<open>floor (fs * duration)\<close> and \<open>t[i] = i * duration / floor (fs * duration)\<close>:
  it is strictly increasing with the constant step \<open>duration / floor (fs * duration)\<close>,
  which is \<open>1 / fs\<close> (so \<open>t[i] = i / fs\<close>) when \<open>fs * duration\<close> is an integer.
  The returned time vector is this one, and the sample array has its length for the
  eight formula types, for an impulse (which needs a non-empty time vector) and for the
  default custom function; for a custom function in general the sample array has the
  length of whatever its expression evaluates to.
\<close>

theorem time_vector:
  assumes "0 < fs" and "0 < duration"
  shows "\<exists>g. SignalGenerator_init fs duration = Inr g
      \<and> length (self_t g) = nat \<lfloor>fs * duration\<rfloor>
      \<and> (\<forall>i<length (self_t g). self_t g ! i = real i * duration / real_of_int \<lfloor>fs * duration\<rfloor>)
      \<and> (\<forall>i. Suc i < length (self_t g) \<longrightarrow>
             self_t g ! i < self_t g ! Suc i
           \<and> self_t g ! Suc i - self_t g ! i = duration / real_of_int \<lfloor>fs * duration\<rfloor>)
      \<and> (fs * duration \<in> \<int> \<longrightarrow> (\<forall>i<length (self_t g). self_t g ! i = real i / fs))
      \<and> (\<forall>ty \<in> set formula_types. \<forall>kw.
             \<exists>x. generate g ty kw = Inr (self_t g, x) \<and> length x = length (self_t g))
      \<and> (\<forall>kw. self_t g \<noteq> [] \<longrightarrow>
             (\<exists>x. generate g ''Impulse'' kw = Inr (self_t g, x) \<and> length x = length (self_t g)))
      \<and> (\<forall>kw ys. (case function_arg kw of None \<Rightarrow> default_function | Some f \<Rightarrow> f) (self_t g) = Some ys
             \<longrightarrow> (\<exists>x. generate g ''Custom Function'' kw = Inr (self_t g, x) \<and> length x = length ys))
      \<and> (\<forall>kw. function_arg kw = None \<longrightarrow>
             (\<exists>x. generate g ''Custom Function'' kw = Inr (self_t g, x) \<and> length x = length (self_t g)))"
proof -
  let ?n = "\<lfloor>fs * duration\<rfloor>"
  let ?ts = "map (\<lambda>i. real i * duration / real_of_int ?n) [0..<nat ?n]"
  let ?g = "\<lparr>self_fs = fs, self_duration = duration, self_t = ?ts\<rparr>"
  have i: "SignalGenerator_init fs duration = Inr ?g" by (rule init_positive[OF assms])
  have l: "length (self_t ?g) = nat ?n" by simp
  have v: "\<forall>i<length (self_t ?g). self_t ?g ! i = real i * duration / real_of_int ?n" by simp
  have s: "\<forall>i. Suc i < length (self_t ?g) \<longrightarrow>
             self_t ?g ! i < self_t ?g ! Suc i
           \<and> self_t ?g ! Suc i - self_t ?g ! i = duration / real_of_int ?n"
  proof (intro allI impI)
    fix i assume a: "Suc i < length (self_t ?g)"
    then have b: "Suc i < nat ?n" "i < nat ?n" by simp_all
    have "self_t ?g ! i = real i * duration / real_of_int ?n"
         "self_t ?g ! Suc i = real (Suc i) * duration / real_of_int ?n"
      using b by (simp_all del: of_nat_Suc)
    then show "self_t ?g ! i < self_t ?g ! Suc i
           \<and> self_t ?g ! Suc i - self_t ?g ! i = duration / real_of_int ?n"
      using time_step[OF assms(2) b(1)] by simp
  qed
  have z: "fs * duration \<in> \<int> \<longrightarrow> (\<forall>i<length (self_t ?g). self_t ?g ! i = real i / fs)"
    using time_integral[OF assms] by simp
  have f: "\<forall>ty \<in> set formula_types. \<forall>kw.
             \<exists>x. generate ?g ty kw = Inr (self_t ?g, x) \<and> length x = length (self_t ?g)"
  proof (intro ballI allI)
    fix ty kw assume "ty \<in> set formula_types"
    from generate_formula[OF this] obtain f where
      "\<And>g kw. generate g ty kw
           = Inr (self_t g, map (\<lambda>\<tau>. f ((num_arg kw)(''dc_offset'' := None)) (self_duration g) \<tau>
                                      + get_num (num_arg kw) ''dc_offset'' 0) (self_t g))"
      by blast
    then show "\<exists>x. generate ?g ty kw = Inr (self_t ?g, x) \<and> length x = length (self_t ?g)"
      by (metis length_map)
  qed
  have m: "\<forall>kw. self_t ?g \<noteq> [] \<longrightarrow>
             (\<exists>x. generate ?g ''Impulse'' kw = Inr (self_t ?g, x) \<and> length x = length (self_t ?g))"
  proof (intro allI impI)
    fix kw assume "self_t ?g \<noteq> []"
    from impulse_on_nonempty[OF this, of kw] obtain idx where
      "generate ?g ''Impulse'' kw
             = Inr (self_t ?g, (replicate (length (self_t ?g)) 0)
                                [idx := get_num (num_arg kw) ''amplitude'' 1])"
      by blast
    then show "\<exists>x. generate ?g ''Impulse'' kw = Inr (self_t ?g, x) \<and> length x = length (self_t ?g)"
      by (metis length_list_update length_replicate)
  qed
  have c: "\<forall>kw ys. (case function_arg kw of None \<Rightarrow> default_function | Some f \<Rightarrow> f) (self_t ?g) = Some ys
             \<longrightarrow> (\<exists>x. generate ?g ''Custom Function'' kw = Inr (self_t ?g, x) \<and> length x = length ys)"
    by (simp add: generate_custom)
  have d: "\<forall>kw. function_arg kw = None \<longrightarrow>
             (\<exists>x. generate ?g ''Custom Function'' kw = Inr (self_t ?g, x) \<and> length x = length (self_t ?g))"
    by (simp add: generate_custom default_function_def)
  show ?thesis
    using i l v s z f m c d by (intro exI[of _ ?g] conjI)
qed

text \<open>Four samples a second for half a second.\<close>

theorem time_vector_witness:
  "(0::real) < 4 \<and> (0::real) < 1 / 2 \<and>
   SignalGenerator_init 4 (1 / 2) = Inr \<lparr>self_fs = 4, self_duration = 1 / 2, self_t = [0, 1 / 4]\<rparr>"
proof -
  have "SignalGenerator_init 4 (1 / 2) = Inr \<lparr>self_fs = 4, self_duration = 1 / 2, self_t = [0, 1 / 4]\<rparr>"
    using time_vector[of 4 "1 / 2"]
    by (simp add: SignalGenerator_init_def linspace_def py_int_def numeral_2_eq_2)
  then show ?thesis by simp
qed

text \<open>
  Claim C4 as stated fails: with \<open>fs = 2.5\<close> and \<open>duration = 1\<close> the two samples are
  at 0 and 0.5, not at 0 and \<open>1 / fs = 0.4\<close>; and the custom function \<open>np.zeros(3)\<close>
  returns three samples beside these two sample times.
\<close>

theorem time_step_not_sampling_period:
  "SignalGenerator_init (5 / 2) 1 = Inr \<lparr>self_fs = 5 / 2, self_duration = 1, self_t = [0, 1 / 2]\<rparr>
   \<and> [0, 1 / 2] ! 1 \<noteq> (1::real) / (5 / 2)
   \<and> generate \<lparr>self_fs = 5 / 2, self_duration = 1, self_t = [0, 1 / 2]\<rparr> ''Custom Function''
        \<lparr>num_arg = Map.empty, function_arg = Some zeros3_function\<rparr> = Inr ([0, 1 / 2], [0, 0, 0])"
  by (simp add: SignalGenerator_init_def linspace_def py_int_def numeral_2_eq_2
        generate_custom zeros3_function_def get_num_def)

section \<open>The Fourier round trip\<close>

lemma root_of_unity_sum:
  assumes "n < N" and "m < N"
  shows "(\<Sum>k<N. cis (2 * pi * real k * real n / real N) * cis (- (2 * pi * real k * real m / real N)))
           = (if n = m then of_nat N else 0)"
proof -
  have N: "0 < N" using assms by simp
  define \<theta> where "\<theta> = 2 * pi * (real n - real m) / real N"
  have pw: "cis (2 * pi * real k * real n / real N) * cis (- (2 * pi * real k * real m / real N))
                = cis \<theta> ^ k" for k
  proof -
    have "2 * pi * real k * real n / real N + - (2 * pi * real k * real m / real N) = real k * \<theta>"
      by (simp add: \<theta>_def diff_divide_distrib algebra_simps)
    then show ?thesis by (simp add: cis_mult DeMoivre)
  qed
  have gs: "(\<Sum>k<N. cis (2 * pi * real k * real n / real N) * cis (- (2 * pi * real k * real m / real N)))
              = (\<Sum>k<N. cis \<theta> ^ k)"
    by (simp only: pw)
  show ?thesis
  proof (cases "n = m")
    case True
    then have "\<theta> = 0" by (simp add: \<theta>_def)
    then show ?thesis unfolding gs using True by simp
  next
    case False
    have ne: "cis \<theta> \<noteq> 1"
    proof
      assume "cis \<theta> = 1"
      then have "Re (cis \<theta>) = Re 1" by simp
      then have "cos \<theta> = 1" by simp
      then obtain j :: int where j: "\<theta> = real_of_int j * 2 * pi"
        using cos_one_2pi_int by blast
      have "2 * pi * (real n - real m) = real_of_int j * 2 * pi * real N"
        using j N by (simp add: \<theta>_def field_simps)
      then have "real n - real m = real_of_int j * real N" by simp
      then have "real_of_int (int n - int m) = real_of_int (j * int N)" by simp
      then have e: "int n - int m = j * int N" by (simp only: of_int_eq_iff)
      have "j \<noteq> 0" using e False by auto
      then have "1 \<le> \<bar>j\<bar>" by linarith
      then have "1 * int N \<le> \<bar>j\<bar> * int N"
        by (intro mult_right_mono) simp_all
      then have "int N \<le> \<bar>j * int N\<bar>"
        by (simp add: abs_mult)
      moreover have "\<bar>int n - int m\<bar> < int N" using assms by linarith
      ultimately show False using e by simp
    qed
    have "cis \<theta> ^ N = cis (2 * pi * (real n - real m))"
      using N by (simp add: DeMoivre \<theta>_def)
    also have "\<dots> = 1"
      by (rule cis_multiple_2pi) simp
    finally have one: "cis \<theta> ^ N = 1" .
    have "(\<Sum>k<N. cis \<theta> ^ k) = (cis \<theta> ^ N - 1) / (cis \<theta> - 1)"
      using ne by (rule geometric_sum)
    then show ?thesis unfolding gs using False by (simp add: one)
  qed
qed

lemma inverse_dft_sample:
  assumes "n < length x"
  shows "(\<Sum>k<length x. (\<Sum>m<length x. x ! m * cis (- (2 * pi * real k * real m / real (length x))))
              * cis (2 * pi * real k * real n / real (length x))) / of_nat (length x) = x ! n"
proof -
  let ?N = "length x"
  have N: "0 < ?N" using assms by (cases x) simp_all
  have "(\<Sum>k<?N. (\<Sum>m<?N. x ! m * cis (- (2 * pi * real k * real m / real ?N)))
              * cis (2 * pi * real k * real n / real ?N))
      = (\<Sum>k<?N. \<Sum>m<?N. x ! m * (cis (2 * pi * real k * real n / real ?N)
                                     * cis (- (2 * pi * real k * real m / real ?N))))"
    by (simp add: sum_distrib_right sum_distrib_left mult_ac)
  also have "\<dots> = (\<Sum>m<?N. \<Sum>k<?N. x ! m * (cis (2 * pi * real k * real n / real ?N)
                                     * cis (- (2 * pi * real k * real m / real ?N))))"
    by (rule sum.swap)
  also have "\<dots> = (\<Sum>m<?N. x ! m * (if n = m then of_nat ?N else 0))"
    using assms by (intro sum.cong refl) (simp add: sum_distrib_left[symmetric] root_of_unity_sum)
  also have "\<dots> = x ! n * of_nat ?N"
    using assms by (simp add: if_distrib[of "\<lambda>z. _ * z"] sum.delta' cong: if_cong)
  finally show ?thesis using N by simp
qed

lemma fft_ifft_inverse:
  assumes "x \<noteq> []"
  shows "\<exists>X. fft_fft x = Inr X \<and> length X = length x \<and> fft_ifft X = Inr x"
proof -
  let ?N = "length x"
  let ?X = "map (\<lambda>k. \<Sum>n<?N. x ! n * cis (- (2 * pi * real k * real n / real ?N))) [0..<?N]"
  have N: "?N \<noteq> 0" using assms by simp
  have f: "fft_fft x = Inr ?X" using N by (simp add: fft_fft_def Let_def)
  have l: "length ?X = ?N" by simp
  have s: "(\<Sum>k<?N. ?X ! k * cis (2 * pi * real k * real n / real ?N)) / of_nat ?N = x ! n"
    if "n < ?N" for n
  proof -
    have "(\<Sum>k<?N. ?X ! k * cis (2 * pi * real k * real n / real ?N))
        = (\<Sum>k<?N. (\<Sum>m<?N. x ! m * cis (- (2 * pi * real k * real m / real ?N)))
              * cis (2 * pi * real k * real n / real ?N))"
      by (intro sum.cong refl) simp
    then show ?thesis using inverse_dft_sample[OF that] by simp
  qed
  define F where "F n = (\<Sum>k<?N. ?X ! k * cis (2 * pi * real k * real n / real ?N)) / of_nat ?N" for n
  have "map F [0..<?N] = x"
  proof (rule nth_equalityI)
    show "length (map F [0..<?N]) = length x" by simp
  next
    fix i assume "i < length (map F [0..<?N])"
    then have i: "i < ?N" by simp
    then have "map F [0..<?N] ! i = F i" by simp
    also have "\<dots> = x ! i" unfolding F_def by (rule s[OF i])
    finally show "map F [0..<?N] ! i = x ! i" .
  qed
  moreover have "fft_ifft ?X = Inr (map F [0..<?N])"
    using N unfolding F_def fft_ifft_def Let_def l by simp
  ultimately have "fft_ifft ?X = Inr x" by simp
  then show ?thesis using f l by blast
qed

text \<open>
  Claim C7, as amended. For every non-empty real sequence \<open>x\<close> and every non-zero
  sampling rate, \<open>fft\<close> returns a frequency vector and a spectrum of the length of
  \<open>x\<close>, and \<open>ifft\<close> of that spectrum is \<open>x\<close> exactly.
\<close>

theorem fft_round_trip:
  assumes "x \<noteq> []" and "fs \<noteq> 0"
  shows "\<exists>freq X. FourierTransform_fft x fs = Inr (freq, X)
           \<and> length freq = length x \<and> length X = length x
           \<and> FourierTransform_ifft X = Inr x
           \<and> round_trip x fs = Inr x"
proof -
  have "map complex_of_real x \<noteq> []" using assms(1) by simp
  from fft_ifft_inverse[OF this] obtain X where
    X: "fft_fft (map complex_of_real x) = Inr X" "length X = length x"
       "fft_ifft X = Inr (map complex_of_real x)"
    by auto
  have nz: "real (length x) * (1 / fs) \<noteq> 0" using assms by simp
  obtain freq where freq: "fftfreq (length x) (1 / fs) = Inr freq" "length freq = length x"
    using nz by (simp add: fftfreq_def Let_def)
  have a: "FourierTransform_fft x fs = Inr (freq, X)"
    using X(1) freq(1) assms(2) by (simp add: FourierTransform_fft_def)
  have "map Re (map complex_of_real x) = x" by (simp add: comp_def)
  then have b: "FourierTransform_ifft X = Inr x"
    by (simp add: FourierTransform_ifft_def X(3))
  have "round_trip x fs = Inr x" by (simp add: round_trip_def a b)
  then show ?thesis using a b X(2) freq(2) by blast
qed

text \<open>The sequence \<open>[1, 2]\<close> at 1000 Hz.\<close>

theorem fft_round_trip_witness:
  "round_trip [1, 2] 1000 = Inr [1, 2]"
  using fft_round_trip[of "[1, 2]" 1000] by auto

text \<open>
  Claim C7 as stated fails: the empty sequence is a finite real sequence, and \<open>fft\<close>
  rejects it, so the round trip returns nothing.
\<close>

theorem fft_round_trip_empty:
  "FourierTransform_fft [] 1000 = Inl Invalid_number_of_data_points
   \<and> round_trip [] 1000 = Inl Invalid_number_of_data_points"
  by (simp add: round_trip_def FourierTransform_fft_def fft_fft_def)

section \<open>The frequency response when the evaluation fails\<close>

lemma frequency_response_fallback:
  assumes "freqz b a n fs = Inl e" and "0 \<le> n div 2 + 1"
  shows "frequency_response freqz fs b a n =
           Inr (map (\<lambda>i. real i * (fs / 2) / real_of_int (n div 2)) [0..<nat (n div 2 + 1)],
                replicate (nat (n div 2 + 1)) 0)"
  using assms by (simp add: frequency_response_def linspace_def map_replicate_const)

text \<open>
  Claim C3 does not hold of the code. When \<open>freqz\<close> fails on a request for 1024
  points at \<open>fs = 1000\<close>, the handler returns 513 frequencies, from 0 to 500 with the
  endpoint included, and 513 zeros: not 1024 of each. When it fails on a request for
  -3 points, the handler's own \<open>linspace\<close> raises.
\<close>

theorem frequency_response_fallback_grid:
  "frequency_response freqz_fails 1000 [1] [] 1024 =
           Inr (map (\<lambda>i. real i * 500 / 512) [0..<513], replicate 513 0)
   \<and> length (map (\<lambda>i. real i * 500 / 512) [0..<513]) = 513
   \<and> length (replicate 513 (0::complex)) = 513
   \<and> frequency_response freqz_fails 1000 [1] [1] (- 3) = Inl Number_of_samples_negative"
proof -
  have "freqz_fails [1] [] 1024 1000 = Inl Library_failure" by (simp add: freqz_fails_def)
  from frequency_response_fallback[of freqz_fails "[1]" "[]" 1024 1000 Library_failure, OF this]
  have "frequency_response freqz_fails 1000 [1] [] 1024 =
           Inr (map (\<lambda>i. real i * 500 / 512) [0..<513], replicate 513 0)"
    by simp
  moreover have "frequency_response freqz_fails 1000 [1] [1] (- 3) = Inl Number_of_samples_negative"
    by (simp add: frequency_response_def freqz_fails_def linspace_def)
  ultimately show ?thesis by simp
qed

end
